theory Spec2Isabelle
  imports Complex_Main "HOL-Library.Word"
begin

unbundle bit_operations_syntax

section \<open>Basic types\<close>

type_synonym u8 = "8 word"
type_synonym u16 = "16 word"
type_synonym u32 = "32 word"
type_synonym u64 = "64 word"

text \<open>A C \<open>float\<close> is carried as its 32-bit pattern: the socket helpers and the
  broadcast only copy floats, they never compute with them.\<close>

type_synonym f32 = "32 word"

text \<open>\<open>size_t\<close> is taken to be 64 bits wide.\<close>

type_synonym size_t = "64 word"

datatype 'a VECTOR3 = VECTOR3 (vec_x: 'a) (vec_y: 'a) (vec_z: 'a)

section \<open>ExternalDataset.h\<close>

text \<open>A brick key is the triple (timestep, lod, linear index).\<close>

type_synonym BrickKey = "size_t \<times> size_t \<times> size_t"

record BrickMD =
  center :: "f32 VECTOR3"
  extents :: "f32 VECTOR3"
  n_voxels :: "u32 VECTOR3"

datatype VariantArray =
    DT_UBYTE "u8 list"
  | DT_BYTE "u8 list"
  | DT_USHORT "u16 list"
  | DT_SHORT "u16 list"
  | DT_FLOAT "f32 list"
  | DT_DOUBLE "u64 list"

text \<open>The state of an \<open>ExternalDataset\<close>: the brick table of the base class
  \<open>BrickedDataset\<close> (an association list, in iteration order), the data table, the
  private members of the class and the 1-D histogram of the base class \<open>Dataset\<close>
  (\<open>None\<close> when no histogram is cached).\<close>

record ExternalDataset =
  bricks :: "(BrickKey \<times> BrickMD) list"
  m_Data :: "(BrickKey \<times> VariantArray) list"
  m_fMaxMagnitude :: f32
  m_vDomainSize :: "u64 VECTOR3"
  m_DataRange :: "u64 \<times> u64"
  m_pHist1D :: "u32 list option"

datatype ds_error = BrickNotFound

text \<open>Modelled from the spec: \<open>BrickedDataset::GetBrickMetadata\<close> is not part of the
  sources at hand; \<open>brick_metadata(key)\<close> fails with \<open>NotFound\<close> if the key is
  unknown.\<close>

definition GetBrickMetadata :: "ExternalDataset \<Rightarrow> BrickKey \<Rightarrow> ds_error + BrickMD" where
  "GetBrickMetadata ds bk =
     (case map_of (bricks ds) bk of None \<Rightarrow> Inl BrickNotFound | Some md \<Rightarrow> Inr md)"

definition GetBrickOverlapSize :: "ExternalDataset \<Rightarrow> u32 VECTOR3" where
  "GetBrickOverlapSize ds = VECTOR3 1 1 1"

text \<open>\<open>voxels[i]-1\<close> is computed in 32-bit unsigned arithmetic and then widened to
  64 bits.\<close>

definition GetEffectiveBrickSize :: "ExternalDataset \<Rightarrow> BrickKey \<Rightarrow> ds_error + u64 VECTOR3" where
  "GetEffectiveBrickSize ds bk =
     (case GetBrickMetadata ds bk of
        Inl e \<Rightarrow> Inl e
      | Inr md \<Rightarrow>
          (let voxels = n_voxels md
           in Inr (VECTOR3 (ucast (vec_x voxels - 1))
                           (ucast (vec_y voxels - 1))
                           (ucast (vec_z voxels - 1)))))"

definition GetLODLevelCount :: "ExternalDataset \<Rightarrow> u64" where
  "GetLODLevelCount ds = 1"

text \<open>\<open>GetComponentCount\<close> logs a warning and returns 1; the model returns the
  warning with the value.\<close>

definition GetComponentCount :: "ExternalDataset \<Rightarrow> string list \<times> u64" where
  "GetComponentCount ds = ([''Assuming single-component data.''], 1)"

definition GetDomainSize :: "ExternalDataset \<Rightarrow> u64 VECTOR3" where
  "GetDomainSize ds = m_vDomainSize ds"

definition SetDomainSize :: "u64 \<Rightarrow> u64 \<Rightarrow> u64 \<Rightarrow> ExternalDataset \<Rightarrow> ExternalDataset" where
  "SetDomainSize dx dy dz ds = ds\<lparr>m_vDomainSize := VECTOR3 dx dy dz\<rparr>"

text \<open>A dataset whose domain of 4 x 4 x 4 voxels is covered by one brick: each of the six
  faces of the brick lies on the boundary of the domain.\<close>

definition single_brick_ds :: ExternalDataset where
  "single_brick_ds =
     \<lparr>bricks = [((0, 0, 0),
                 \<lparr>center = VECTOR3 0 0 0, extents = VECTOR3 0 0 0,
                  n_voxels = VECTOR3 4 4 4\<rparr>)],
      m_Data = [((0, 0, 0), DT_UBYTE (replicate 64 0))],
      m_fMaxMagnitude = 0,
      m_vDomainSize = VECTOR3 4 4 4,
      m_DataRange = (0, 0),
      m_pHist1D = None\<rparr>"

subsection \<open>The histogram\<close>

text \<open>The header declares \<open>SetHistogram\<close>, \<open>AddBrick\<close>, \<open>UpdateData\<close>, \<open>Clear\<close>,
  \<open>SetRange\<close> and \<open>Recalculate1DHistogram\<close>; their bodies are not part of the sources
  at hand.\<close>

text \<open>Modelled from the spec: the body of \<open>SetHistogram\<close> is missing; after
  \<open>set_histogram(h)\<close> the histogram is \<open>h\<close>.\<close>

definition SetHistogram :: "u32 list \<Rightarrow> ExternalDataset \<Rightarrow> ExternalDataset" where
  "SetHistogram h e = e\<lparr>m_pHist1D := Some h\<rparr>"

text \<open>Modelled from the spec: the body of \<open>AddBrick\<close> is missing; it stores the brick
  with its metadata, and as a write operation it invalidates the cached histogram.\<close>

definition AddBrick :: "BrickKey \<Rightarrow> BrickMD \<Rightarrow> VariantArray \<Rightarrow> ExternalDataset \<Rightarrow> ExternalDataset" where
  "AddBrick bk md payload e =
     e\<lparr>bricks := (bk, md) # bricks e, m_Data := (bk, payload) # m_Data e, m_pHist1D := None\<rparr>"

text \<open>Modelled from the spec: the body of \<open>UpdateData\<close> is missing; it replaces the data
  of an existing brick (a lookup of an unknown key fails) and invalidates the cached
  histogram.\<close>

definition UpdateData :: "BrickKey \<Rightarrow> VariantArray \<Rightarrow> ExternalDataset \<Rightarrow> ds_error + ExternalDataset" where
  "UpdateData bk payload e =
     (case map_of (m_Data e) bk of
        None \<Rightarrow> Inl BrickNotFound
      | Some old \<Rightarrow>
          Inr (e\<lparr>m_Data := map (\<lambda>(k, v). if k = bk then (k, payload) else (k, v)) (m_Data e),
                 m_pHist1D := None\<rparr>))"

text \<open>Modelled from the spec: the body of \<open>Clear\<close> is missing; it destroys the bricks
  and invalidates the cached histogram.\<close>

definition Clear :: "ExternalDataset \<Rightarrow> ExternalDataset" where
  "Clear e = e\<lparr>bricks := [], m_Data := [], m_pHist1D := None\<rparr>"

text \<open>Modelled from the spec: the body of \<open>SetRange\<close> is missing; it sets the scalar
  range and, as a write operation, invalidates the cached histogram.\<close>

definition SetRange :: "u64 \<times> u64 \<Rightarrow> ExternalDataset \<Rightarrow> ExternalDataset" where
  "SetRange r e = e\<lparr>m_DataRange := r, m_pHist1D := None\<rparr>"

text \<open>Modelled from the spec: the body of \<open>Recalculate1DHistogram\<close> is missing; the
  histogram is computed from the current brick set. How the voxel values are binned is
  the parameter \<open>calc\<close>.\<close>

definition Recalculate1DHistogram ::
  "((BrickKey \<times> VariantArray) list \<Rightarrow> u32 list) \<Rightarrow> ExternalDataset \<Rightarrow> ExternalDataset" where
  "Recalculate1DHistogram calc e = e\<lparr>m_pHist1D := Some (calc (m_Data e))\<rparr>"

text \<open>Modelled from the spec: the getter \<open>histogram()\<close> is missing; a histogram that
  is not cached is recomputed on request and cached.\<close>

definition histogram ::
  "((BrickKey \<times> VariantArray) list \<Rightarrow> u32 list) \<Rightarrow> ExternalDataset \<Rightarrow> u32 list \<times> ExternalDataset" where
  "histogram calc e =
     (case m_pHist1D e of
        Some h \<Rightarrow> (h, e)
      | None \<Rightarrow> (calc (m_Data e), Recalculate1DHistogram calc e))"

section \<open>IO/sockethelper: the wire helpers\<close>

text \<open>The helper functions that move single values over a socket are not part of
  the sources at hand. They are modelled on byte lists: a writer returns the bytes it
  appends to the socket's output, a reader takes the bytes that are still to be read and
  returns what it read with the bytes that remain. A read that cannot be completed
  returns \<open>None\<close> and leaves nothing to be read.\<close>

text \<open>Modelled from the spec: \<open>wru8\<close> is missing; a \<open>u8\<close> is one byte.\<close>

definition wru8 :: "u8 \<Rightarrow> u8 list" where
  "wru8 v = [v]"

text \<open>Modelled from the spec: \<open>wru16\<close> is missing; all multibyte integers are
  big-endian.\<close>

definition wru16 :: "u16 \<Rightarrow> u8 list" where
  "wru16 v = [ucast (drop_bit 8 v), ucast v]"

text \<open>Modelled from the spec: \<open>wru32\<close> is missing; all multibyte integers are
  big-endian.\<close>

definition wru32 :: "u32 \<Rightarrow> u8 list" where
  "wru32 v = [ucast (drop_bit 24 v), ucast (drop_bit 16 v), ucast (drop_bit 8 v), ucast v]"

text \<open>Modelled from the spec: \<open>wrsizet\<close> is missing; a \<open>size_t\<close> is transmitted as
  \<open>u32\<close> on the wire (\<open>lod_count:u32\<close>, \<open>brick_count:u32\<close>, \<open>size:u32\<close>).\<close>

definition wrsizet :: "size_t \<Rightarrow> u8 list" where
  "wrsizet v = wru32 (ucast v)"

text \<open>Modelled from the spec: \<open>wr\<close> is missing; the \<open>n\<close> bytes of a string follow its
  length.\<close>

definition wr :: "u8 list \<Rightarrow> nat \<Rightarrow> u8 list" where
  "wr buf n = take n buf"

text \<open>Modelled from the spec: \<open>wru32v_d\<close> is missing; \<open>n_voxels[3n]:u32\<close> are the
  values alone, each big-endian.\<close>

definition wru32v_d :: "u32 list \<Rightarrow> nat \<Rightarrow> u8 list" where
  "wru32v_d buf n = concat (map wru32 (take n buf))"

text \<open>Modelled from the spec: \<open>wrf32v_d\<close> is missing; \<open>centers[3n]:f32\<close> and
  \<open>extents[3n]:f32\<close> are the IEEE-754 32-bit values alone.\<close>

definition wrf32v_d :: "f32 list \<Rightarrow> nat \<Rightarrow> u8 list" where
  "wrf32v_d buf n = concat (map wru32 (take n buf))"

text \<open>Modelled from the spec: \<open>wrsizetv_d\<close> is missing; variable-length sequences of
  \<open>size_t\<close> are transmitted as \<open>u32\<close> on the wire.\<close>

definition wrsizetv_d :: "size_t list \<Rightarrow> nat \<Rightarrow> u8 list" where
  "wrsizetv_d buf n = concat (map wrsizet (take n buf))"

text \<open>Modelled from the spec: \<open>wrf32v\<close> is missing; float vectors are \<open>len:u32\<close> then
  \<open>len\<close> IEEE-754 32-bit floats.\<close>

definition wrf32v :: "f32 list \<Rightarrow> nat \<Rightarrow> u8 list" where
  "wrf32v buf n = wrsizet (of_nat n) @ wrf32v_d buf n"

text \<open>Modelled from the spec: \<open>readFromSocket\<close> is missing; it reads the given number
  of bytes.\<close>

definition readFromSocket :: "nat \<Rightarrow> u8 list \<Rightarrow> u8 list option \<times> u8 list" where
  "readFromSocket n s = (if n \<le> length s then (Some (take n s), drop n s) else (None, []))"

text \<open>Modelled from the spec: \<open>ru8\<close> is missing; a \<open>u8\<close> is one byte.\<close>

fun ru8 :: "u8 list \<Rightarrow> u8 option \<times> u8 list" where
  "ru8 (a # s) = (Some a, s)"
| "ru8 [] = (None, [])"

text \<open>Modelled from the spec: \<open>ru16\<close> is missing; all multibyte integers are
  big-endian.\<close>

fun ru16 :: "u8 list \<Rightarrow> u16 option \<times> u8 list" where
  "ru16 (a # b # s) = (Some (push_bit 8 (ucast a) OR ucast b), s)"
| "ru16 s = (None, [])"

text \<open>The big-endian value of four bytes.\<close>

definition of_be32 :: "u8 \<Rightarrow> u8 \<Rightarrow> u8 \<Rightarrow> u8 \<Rightarrow> u32" where
  "of_be32 a b c d =
     push_bit 24 (ucast a) OR push_bit 16 (ucast b) OR push_bit 8 (ucast c) OR ucast d"

text \<open>Modelled from the spec: \<open>ru32\<close> is missing; all multibyte integers are
  big-endian.\<close>

fun ru32 :: "u8 list \<Rightarrow> u32 option \<times> u8 list" where
  "ru32 (a # b # c # d # s) = (Some (of_be32 a b c d), s)"
| "ru32 s = (None, [])"

text \<open>Modelled from the spec: \<open>rsizet\<close> is missing; a \<open>size_t\<close> is transmitted as
  \<open>u32\<close> on the wire.\<close>

definition rsizet :: "u8 list \<Rightarrow> size_t option \<times> u8 list" where
  "rsizet s = (case ru32 s of (None, r) \<Rightarrow> (None, r) | (Some v, r) \<Rightarrow> (Some (ucast v), r))"

text \<open>The 32-bit values of a byte buffer, four bytes each.\<close>

fun f32s_of_bytes :: "u8 list \<Rightarrow> f32 list" where
  "f32s_of_bytes (a # b # c # d # s) = of_be32 a b c d # f32s_of_bytes s"
| "f32s_of_bytes s = []"

text \<open>Modelled from the spec: \<open>rf32v\<close> is missing; float vectors are \<open>len:u32\<close> then
  \<open>len\<close> IEEE-754 32-bit floats. It returns the vector and its length.\<close>

definition rf32v :: "u8 list \<Rightarrow> (f32 list \<times> size_t) option \<times> u8 list" where
  "rf32v s =
     (case rsizet s of
        (None, r) \<Rightarrow> (None, r)
      | (Some n, r) \<Rightarrow>
          (case readFromSocket (4 * unat n) r of
             (None, r') \<Rightarrow> (None, r')
           | (Some bs, r') \<Rightarrow> (Some (f32s_of_bytes bs, n), r')))"

section \<open>IO/sockethelper/parameterwrapper.cpp\<close>

text \<open>The declaration of the command codes is not part of the sources at hand: the seven
  enumerators the source names, and \<open>nds_OTHER\<close> for any other value of the type.\<close>

datatype NetDSCommandCode =
    nds_OPEN | nds_CLOSE | nds_BRICK | nds_LIST_FILES | nds_SHUTDOWN | nds_ROTATION
  | nds_BATCHSIZE | nds_OTHER nat

text \<open>The classes derived from \<open>ParameterWrapper\<close>, each with the member \<open>code\<close> of
  the base class and its own members. A \<open>char*\<close> or \<open>float*\<close> member is carried as
  the buffer it points to.\<close>

datatype ParameterWrapper =
    OpenParams (code: NetDSCommandCode) (len: u16) (filename: "u8 list")
  | CloseParams (code: NetDSCommandCode) (len: u16) (filename: "u8 list")
  | BatchSizeParams (code: NetDSCommandCode) (newBatchSize: size_t)
  | RotateParams (code: NetDSCommandCode) (matrix: "f32 list") (matSize: size_t) (type: u8)
  | BrickParams (code: NetDSCommandCode) (type: u8) (lod: u32) (bidx: u32)
  | ListFilesParams (code: NetDSCommandCode)
  | ShutdownParams (code: NetDSCommandCode)

text \<open>The constructors initialise \<open>code\<close> alone. What the other members and a buffer
  fresh from \<open>new\<close> hold before they are assigned is indeterminate; it is made a
  parameter of the model.\<close>

record uninit =
  un_len :: u16
  un_filename :: "u8 list"
  un_heap :: "nat \<Rightarrow> u8"
  un_newBatchSize :: size_t
  un_matrix :: "f32 list"
  un_matSize :: size_t
  un_type :: u8
  un_lod :: u32
  un_bidx :: u32

definition new_char :: "uninit \<Rightarrow> nat \<Rightarrow> u8 list" where
  "new_char u n = map (un_heap u) [0..<n]"

text \<open>The bytes waiting to be read on each socket descriptor.\<close>

type_synonym net = "int \<Rightarrow> u8 list"

text \<open>\<open>initFromSocket\<close> ignores the results of the readers: a member whose read fails
  keeps what it held.\<close>

fun initFromSocket :: "uninit \<Rightarrow> ParameterWrapper \<Rightarrow> int \<Rightarrow> net \<Rightarrow> ParameterWrapper \<times> net" where
  "initFromSocket u (OpenParams c l f) socket nt =
     (let (r1, s1) = ru16 (nt socket);
          l' = (case r1 of Some v \<Rightarrow> v | None \<Rightarrow> l);
          f0 = new_char u (unat l');
          (r2, s2) = readFromSocket (unat l') s1;
          f' = (case r2 of Some bs \<Rightarrow> bs | None \<Rightarrow> f0)
      in (OpenParams c l' f', nt(socket := s2)))"
| "initFromSocket u (CloseParams c l f) socket nt =
     (let (r1, s1) = ru16 (nt socket);
          l' = (case r1 of Some v \<Rightarrow> v | None \<Rightarrow> l);
          f0 = new_char u (unat l');
          (r2, s2) = readFromSocket (unat l') s1;
          f' = (case r2 of Some bs \<Rightarrow> bs | None \<Rightarrow> f0)
      in (CloseParams c l' f', nt(socket := s2)))"
| "initFromSocket u (BatchSizeParams c n) socket nt =
     (let (r1, s1) = rsizet (nt socket);
          n' = (case r1 of Some v \<Rightarrow> v | None \<Rightarrow> n)
      in (BatchSizeParams c n', nt(socket := s1)))"
| "initFromSocket u (RotateParams c m ms t) socket nt =
     (let (r1, s1) = rf32v (nt socket);
          m' = (case r1 of Some (v, k) \<Rightarrow> v | None \<Rightarrow> m);
          ms' = (case r1 of Some (v, k) \<Rightarrow> k | None \<Rightarrow> ms);
          (r2, s2) = ru8 s1;
          t' = (case r2 of Some v \<Rightarrow> v | None \<Rightarrow> t)
      in (RotateParams c m' ms' t', nt(socket := s2)))"
| "initFromSocket u (BrickParams c t l b) socket nt =
     (let (r1, s1) = ru8 (nt socket);
          t' = (case r1 of Some v \<Rightarrow> v | None \<Rightarrow> t);
          (r2, s2) = ru32 s1;
          l' = (case r2 of Some v \<Rightarrow> v | None \<Rightarrow> l);
          (r3, s3) = ru32 s2;
          b' = (case r3 of Some v \<Rightarrow> v | None \<Rightarrow> b)
      in (BrickParams c t' l' b', nt(socket := s3)))"
| "initFromSocket u (ListFilesParams c) socket nt = (ListFilesParams c, nt)"
| "initFromSocket u (ShutdownParams c) socket nt = (ShutdownParams c, nt)"

definition OpenParams_ctor :: "uninit \<Rightarrow> int \<Rightarrow> net \<Rightarrow> ParameterWrapper \<times> net" where
  "OpenParams_ctor u socket nt =
     (let this = OpenParams nds_OPEN (un_len u) (un_filename u)
      in if socket \<noteq> -1 then initFromSocket u this socket nt else (this, nt))"

definition CloseParams_ctor :: "uninit \<Rightarrow> int \<Rightarrow> net \<Rightarrow> ParameterWrapper \<times> net" where
  "CloseParams_ctor u socket nt =
     (let this = CloseParams nds_CLOSE (un_len u) (un_filename u)
      in if socket \<noteq> -1 then initFromSocket u this socket nt else (this, nt))"

definition BatchSizeParams_ctor :: "uninit \<Rightarrow> int \<Rightarrow> net \<Rightarrow> ParameterWrapper \<times> net" where
  "BatchSizeParams_ctor u socket nt =
     (let this = BatchSizeParams nds_BATCHSIZE (un_newBatchSize u)
      in if socket \<noteq> -1 then initFromSocket u this socket nt else (this, nt))"

definition BrickParams_ctor :: "uninit \<Rightarrow> int \<Rightarrow> net \<Rightarrow> ParameterWrapper \<times> net" where
  "BrickParams_ctor u socket nt =
     (let this = BrickParams nds_BRICK (un_type u) (un_lod u) (un_bidx u)
      in if socket \<noteq> -1 then initFromSocket u this socket nt else (this, nt))"

definition RotateParams_ctor :: "uninit \<Rightarrow> int \<Rightarrow> net \<Rightarrow> ParameterWrapper \<times> net" where
  "RotateParams_ctor u socket nt =
     (let this = RotateParams nds_ROTATION (un_matrix u) (un_matSize u) (un_type u)
      in if socket \<noteq> -1 then initFromSocket u this socket nt else (this, nt))"

text \<open>The constructors of the two simple requests take the command code; they only
  trace on rank 0.\<close>

definition ListFilesParams_ctor :: "NetDSCommandCode \<Rightarrow> ParameterWrapper" where
  "ListFilesParams_ctor c = ListFilesParams c"

definition ShutdownParams_ctor :: "NetDSCommandCode \<Rightarrow> ParameterWrapper" where
  "ShutdownParams_ctor c = ShutdownParams c"

text \<open>\<open>createFrom\<close> returns the new object, or \<open>None\<close> for \<open>NULL\<close>. The integer value
  of an enumerator is the parameter \<open>cval\<close>: the \<open>ROTATION\<close> case hands \<open>cmd\<close>, not
  \<open>socket\<close>, to a constructor that expects the socket.\<close>

fun createFrom :: "(NetDSCommandCode \<Rightarrow> int) \<Rightarrow> uninit \<Rightarrow> NetDSCommandCode \<Rightarrow> int \<Rightarrow> net
    \<Rightarrow> ParameterWrapper option \<times> net" where
  "createFrom cval u nds_OPEN socket nt = map_prod Some id (OpenParams_ctor u socket nt)"
| "createFrom cval u nds_CLOSE socket nt = map_prod Some id (CloseParams_ctor u socket nt)"
| "createFrom cval u nds_BRICK socket nt = map_prod Some id (BrickParams_ctor u socket nt)"
| "createFrom cval u nds_LIST_FILES socket nt = (Some (ListFilesParams_ctor nds_LIST_FILES), nt)"
| "createFrom cval u nds_SHUTDOWN socket nt = (Some (ShutdownParams_ctor nds_SHUTDOWN), nt)"
| "createFrom cval u nds_ROTATION socket nt =
     map_prod Some id (RotateParams_ctor u (cval nds_ROTATION) nt)"
| "createFrom cval u nds_BATCHSIZE socket nt =
     map_prod Some id (BatchSizeParams_ctor u socket nt)"
| "createFrom cval u (nds_OTHER k) socket nt = (None, nt)"

text \<open>\<open>writeToSocket\<close>: the bytes appended to the socket's output.\<close>

fun writeToSocket :: "(NetDSCommandCode \<Rightarrow> int) \<Rightarrow> ParameterWrapper \<Rightarrow> u8 list" where
  "writeToSocket cval (OpenParams c l f) = wru8 (word_of_int (cval c)) @ wru16 l @ wr f (unat l)"
| "writeToSocket cval (CloseParams c l f) = wru8 (word_of_int (cval c)) @ wru16 l @ wr f (unat l)"
| "writeToSocket cval (BatchSizeParams c n) = wru8 (word_of_int (cval c)) @ wrsizet n"
| "writeToSocket cval (RotateParams c m ms t) = wru8 (word_of_int (cval c)) @ wrf32v m 16"
| "writeToSocket cval (BrickParams c t l b) = wru8 (word_of_int (cval c)) @ wru32 l @ wru32 b"
| "writeToSocket cval (ListFilesParams c) = wru8 (word_of_int (cval c))"
| "writeToSocket cval (ShutdownParams c) = wru8 (word_of_int (cval c))"

text \<open>\<open>MPI_Bcast\<close>: when the collective completes, the buffer of every rank holds what
  the buffer of the root rank held. \<open>root_v\<close> is the buffer at the root, \<open>this_v\<close> the
  buffer at the calling rank.\<close>

definition MPI_Bcast :: "int \<Rightarrow> int \<Rightarrow> 'a \<Rightarrow> 'a \<Rightarrow> 'a" where
  "MPI_Bcast rank srcRank root_v this_v = (if rank = srcRank then this_v else root_v)"

text \<open>A broadcast of the first \<open>n\<close> elements of a buffer.\<close>

definition MPI_Bcast_buf :: "int \<Rightarrow> int \<Rightarrow> nat \<Rightarrow> 'a list \<Rightarrow> 'a list \<Rightarrow> 'a list" where
  "MPI_Bcast_buf rank srcRank n root_v this_v =
     (if rank = srcRank then this_v else take n root_v @ drop n this_v)"

text \<open>\<open>mpi_sync\<close> at rank \<open>rank\<close>, on the object \<open>this\<close> of that rank; \<open>src\<close> is the
  object of the same class at \<open>srcRank\<close>.\<close>

fun mpi_sync :: "uninit \<Rightarrow> int \<Rightarrow> int \<Rightarrow> ParameterWrapper \<Rightarrow> ParameterWrapper \<Rightarrow> ParameterWrapper" where
  "mpi_sync u rank srcRank src (OpenParams c l f) =
     (let l' = MPI_Bcast rank srcRank (len src) l;
          f0 = (if rank \<noteq> srcRank then new_char u (unat l') else f);
          f' = MPI_Bcast_buf rank srcRank (unat l') (filename src) f0
      in OpenParams c l' f')"
| "mpi_sync u rank srcRank src (CloseParams c l f) =
     (let l' = MPI_Bcast rank srcRank (len src) l;
          f0 = (if rank \<noteq> srcRank then new_char u (unat l') else f);
          f' = MPI_Bcast_buf rank srcRank (unat l') (filename src) f0
      in CloseParams c l' f')"
| "mpi_sync u rank srcRank src (BatchSizeParams c n) =
     (let tmp = (ucast n :: u32);
          tmp' = MPI_Bcast rank srcRank (ucast (newBatchSize src) :: u32) tmp
      in BatchSizeParams c (ucast tmp'))"
| "mpi_sync u rank srcRank src (RotateParams c m ms t) =
     (let m' = MPI_Bcast_buf rank srcRank 16 (matrix src) m
      in RotateParams c m' ms t)"
| "mpi_sync u rank srcRank src (BrickParams c t l b) =
     (let t' = MPI_Bcast rank srcRank (type src) t;
          l' = MPI_Bcast rank srcRank (lod src) l;
          b' = MPI_Bcast rank srcRank (bidx src) b
      in BrickParams c t' l' b')"
| "mpi_sync u rank srcRank src (ListFilesParams c) = ListFilesParams c"
| "mpi_sync u rank srcRank src (ShutdownParams c) = ShutdownParams c"

subsection \<open>OpenParams::perform\<close>

text \<open>The dataset behind \<open>object->ds\<close>, as its virtual methods show it:
  \<open>GetLODLevelCount()\<close>, \<open>GetBrickLayout(lod, timestep)\<close>, \<open>GetTotalBrickCount()\<close>
  and the bricks met from \<open>BricksBegin()\<close> to \<open>BricksEnd()\<close>, in that order.\<close>

record Dataset =
  LODLevelCount :: u64
  BrickLayout :: "size_t \<Rightarrow> size_t \<Rightarrow> u32 VECTOR3"
  TotalBrickCount :: size_t
  Bricks :: "(BrickKey \<times> BrickMD) list"

record CallPerformer =
  ds :: Dataset
  maxBatchSize :: size_t

text \<open>The arrays of \<open>perform\<close> are variable-length arrays on the stack; what they hold
  before the loops assign them is indeterminate and a parameter of the model.\<close>

record vla =
  vla_layouts :: "nat \<Rightarrow> u32"
  vla_lods :: "nat \<Rightarrow> size_t"
  vla_idxs :: "nat \<Rightarrow> size_t"
  vla_centers :: "nat \<Rightarrow> f32"
  vla_extents :: "nat \<Rightarrow> f32"
  vla_n_voxels :: "nat \<Rightarrow> u32"

text \<open>The loop over the LOD levels: one step assigns the three entries of level
  \<open>l\<close>.\<close>

definition layouts_step :: "Dataset \<Rightarrow> nat \<Rightarrow> u32 list \<Rightarrow> u32 list" where
  "layouts_step d l layouts =
     (let layout = BrickLayout d (of_nat l) 0
      in layouts[l * 3 + 0 := vec_x layout, l * 3 + 1 := vec_y layout,
                 l * 3 + 2 := vec_z layout])"

definition fill_layouts :: "Dataset \<Rightarrow> nat \<Rightarrow> u32 list \<Rightarrow> u32 list" where
  "fill_layouts d lodCount layouts = fold (layouts_step d) [0..<lodCount] layouts"

record brick_arrays =
  lods :: "size_t list"
  idxs :: "size_t list"
  md_centers :: "f32 list"
  md_extents :: "f32 list"
  md_n_voxels :: "u32 list"

text \<open>The loop over the bricks, with its counter \<open>i\<close>.\<close>

fun read_bricks :: "(BrickKey \<times> BrickMD) list \<Rightarrow> nat \<Rightarrow> brick_arrays \<Rightarrow> brick_arrays" where
  "read_bricks [] i a = a"
| "read_bricks ((key, md) # rest) i a =
     read_bricks rest (i + 1)
       (a\<lparr>lods := (lods a)[i := fst (snd key)],
          idxs := (idxs a)[i := snd (snd key)],
          md_centers := (md_centers a)[i * 3 + 0 := vec_x (center md),
                                       i * 3 + 1 := vec_y (center md),
                                       i * 3 + 2 := vec_z (center md)],
          md_extents := (md_extents a)[i * 3 + 0 := vec_x (extents md),
                                       i * 3 + 1 := vec_y (extents md),
                                       i * 3 + 2 := vec_z (extents md)],
          md_n_voxels := (md_n_voxels a)[i * 3 + 0 := vec_x (n_voxels md),
                                         i * 3 + 1 := vec_y (n_voxels md),
                                         i * 3 + 2 := vec_z (n_voxels md)]\<rparr>)"

text \<open>\<open>perform\<close> returns the object after \<open>openFile\<close> and the bytes written to the
  socket. \<open>CallPerformer::openFile\<close> is not part of the sources at hand and is a
  parameter. So is \<open>wru32v\<close>: the spec says how a float vector is framed, not how a
  \<open>u32\<close> vector written by \<open>wru32v\<close> is.\<close>

definition OpenParams_perform ::
  "(u32 list \<Rightarrow> nat \<Rightarrow> u8 list) \<Rightarrow> (u8 list \<Rightarrow> CallPerformer \<Rightarrow> CallPerformer) \<Rightarrow> vla \<Rightarrow> int
     \<Rightarrow> ParameterWrapper \<Rightarrow> CallPerformer \<Rightarrow> CallPerformer \<times> u8 list" where
  "OpenParams_perform wru32v openFile st rank this object =
     (let object' = openFile (filename this) object
      in if rank \<noteq> 0 then (object', [])
         else
           (let lodCount = LODLevelCount (ds object');
                out1 = wrsizet lodCount;
                layoutsCount = lodCount * 3;
                layouts0 = map (vla_layouts st) [0..<unat layoutsCount];
                layouts = fill_layouts (ds object') (unat lodCount) layouts0;
                out2 = wru32v layouts (unat layoutsCount);
                brickCount = TotalBrickCount (ds object');
                out3 = wrsizet brickCount;
                a0 = \<lparr>lods = map (vla_lods st) [0..<unat brickCount],
                      idxs = map (vla_idxs st) [0..<unat brickCount],
                      md_centers = map (vla_centers st) [0..<unat (brickCount * 3)],
                      md_extents = map (vla_extents st) [0..<unat (brickCount * 3)],
                      md_n_voxels = map (vla_n_voxels st) [0..<unat (brickCount * 3)]\<rparr>;
                a = read_bricks (Bricks (ds object')) 0 a0;
                out4 = wrsizetv_d (lods a) (unat brickCount);
                out5 = wrsizetv_d (idxs a) (unat brickCount);
                out6 = wrf32v_d (md_centers a) (unat (brickCount * 3));
                out7 = wrf32v_d (md_extents a) (unat (brickCount * 3));
                out8 = wru32v_d (md_n_voxels a) (unat (brickCount * 3))
            in (object', out1 @ out2 @ out3 @ out4 @ out5 @ out6 @ out7 @ out8)))"


section \<open>Renderer/GL/GLSBVR2D.cpp\<close>

text \<open>Floats of the renderer are idealised as real numbers: rounding, infinities and
  NaN are outside the model.\<close>

datatype ERenderMode = RM_1DTRANS | RM_2DTRANS | RM_ISOSURFACE | RM_INVALID

text \<open>The part of the OpenGL state the renderer sets before and after the brick
  loop.\<close>

datatype GLcap = GL_BLEND | GL_DEPTH_TEST

datatype GLenum = GL_ZERO | GL_ONE | GL_ONE_MINUS_DST_ALPHA | GL_FUNC_ADD | GL_MAX

record gl_state =
  gl_enabled :: "GLcap \<Rightarrow> bool"
  gl_blend_sfactor :: GLenum
  gl_blend_dfactor :: GLenum
  gl_blend_equation :: GLenum
  gl_depth_mask :: bool

definition glEnable :: "GLcap \<Rightarrow> gl_state \<Rightarrow> gl_state" where
  "glEnable c g = g\<lparr>gl_enabled := (gl_enabled g)(c := True)\<rparr>"

definition glDisable :: "GLcap \<Rightarrow> gl_state \<Rightarrow> gl_state" where
  "glDisable c g = g\<lparr>gl_enabled := (gl_enabled g)(c := False)\<rparr>"

definition glBlendFunc :: "GLenum \<Rightarrow> GLenum \<Rightarrow> gl_state \<Rightarrow> gl_state" where
  "glBlendFunc sf df g = g\<lparr>gl_blend_sfactor := sf, gl_blend_dfactor := df\<rparr>"

definition glBlendEquation :: "GLenum \<Rightarrow> gl_state \<Rightarrow> gl_state" where
  "glBlendEquation m g = g\<lparr>gl_blend_equation := m\<rparr>"

text \<open>The shader programs of the renderer; the two transfer-function programs are
  arrays indexed by 0 (unlit) and 1 (lit).\<close>

datatype GLSLProgram =
    m_pProgram1DTrans nat
  | m_pProgram2DTrans nat
  | m_pProgramHQMIPRot
  | m_pProgramIso
  | m_pProgramColor
  | m_pProgramIsoNoCompose
  | m_pProgramColorNoCompose

datatype uniform = U1f real | U3f real real real

datatype texture = m_p1DTransTex | m_p2DTransTex

text \<open>What the renderer asks of its dataset: the component count and the domain size
  of each LOD.\<close>

record render_dataset =
  rd_ComponentCount :: u64
  rd_DomainSize :: "nat \<Rightarrow> u64 VECTOR3"

record SBVRGeogen2D =
  geo_SamplingModifier :: real
  geo_ClipPlaneEnabled :: bool
  geo_ClipPlane :: "real \<times> real \<times> real \<times> real"
  geo_LODData :: "u32 VECTOR3"


record GLSBVR2D =
  m_eRenderMode :: ERenderMode
  m_bUseLighting :: bool
  m_bAvoidSeperateCompositing :: bool
  m_fSampleRateModifier :: real
  m_bDecreaseSamplingRateNow :: bool
  m_fSampleDecFactor :: real
  m_iCurrentLOD :: nat
  m_bClipPlaneOn :: bool
  m_ClipPlane :: "real \<times> real \<times> real \<times> real"
  m_pDataset :: render_dataset
  m_SBVRGeogen :: SBVRGeogen2D
  gl :: gl_state
  program_enabled :: "GLSLProgram \<Rightarrow> bool"
  uniforms :: "GLSLProgram \<times> string \<Rightarrow> uniform option"
  texture_units :: "nat \<Rightarrow> texture option"
  error_log :: "string list"

definition Enable :: "GLSLProgram \<Rightarrow> GLSBVR2D \<Rightarrow> GLSBVR2D" where
  "Enable p r = r\<lparr>program_enabled := (program_enabled r)(p := True)\<rparr>"


definition Bind :: "texture \<Rightarrow> nat \<Rightarrow> GLSBVR2D \<Rightarrow> GLSBVR2D" where
  "Bind t unit_no r = r\<lparr>texture_units := (texture_units r)(unit_no := Some t)\<rparr>"

definition T_ERROR :: "string \<Rightarrow> GLSBVR2D \<Rightarrow> GLSBVR2D" where
  "T_ERROR msg r = r\<lparr>error_log := error_log r @ [msg]\<rparr>"

definition on_gl :: "(gl_state \<Rightarrow> gl_state) \<Rightarrow> GLSBVR2D \<Rightarrow> GLSBVR2D" where
  "on_gl f r = r\<lparr>gl := f (gl r)\<rparr>"


definition UINTVECTOR3 :: "u64 VECTOR3 \<Rightarrow> u32 VECTOR3" where
  "UINTVECTOR3 v = VECTOR3 (ucast (vec_x v)) (ucast (vec_y v)) (ucast (vec_z v))"



definition lit :: "bool \<Rightarrow> nat" where
  "lit b = (if b then 1 else 0)"


definition on_geogen :: "(SBVRGeogen2D \<Rightarrow> SBVRGeogen2D) \<Rightarrow> GLSBVR2D \<Rightarrow> GLSBVR2D" where
  "on_geogen f r = r\<lparr>m_SBVRGeogen := f (m_SBVRGeogen r)\<rparr>"

definition Render3DPreLoop :: "GLSBVR2D \<Rightarrow> GLSBVR2D" where
  "Render3DPreLoop r =
     (let r1 = on_geogen (\<lambda>g. g\<lparr>geo_SamplingModifier :=
                  m_fSampleRateModifier r
                    / (if m_bDecreaseSamplingRateNow r then m_fSampleDecFactor r else 1)\<rparr>) r;
          r2 = (if m_bClipPlaneOn r1
                then on_geogen (\<lambda>g. g\<lparr>geo_ClipPlaneEnabled := True,
                                         geo_ClipPlane := m_ClipPlane r1\<rparr>) r1
                else on_geogen (\<lambda>g. g\<lparr>geo_ClipPlaneEnabled := False\<rparr>) r1);
          r3 = (case m_eRenderMode r2 of
                  RM_1DTRANS \<Rightarrow>
                    on_gl (glBlendFunc GL_ONE_MINUS_DST_ALPHA GL_ONE)
                      (on_gl (glEnable GL_BLEND)
                        (Enable (m_pProgram1DTrans (lit (m_bUseLighting r2)))
                          (Bind m_p1DTransTex 1 r2)))
                | RM_2DTRANS \<Rightarrow>
                    on_gl (glBlendFunc GL_ONE_MINUS_DST_ALPHA GL_ONE)
                      (on_gl (glEnable GL_BLEND)
                        (Enable (m_pProgram2DTrans (lit (m_bUseLighting r2)))
                          (Bind m_p2DTransTex 1 r2)))
                | RM_ISOSURFACE \<Rightarrow>
                    (if m_bAvoidSeperateCompositing r2
                     then on_gl (glBlendFunc GL_ONE_MINUS_DST_ALPHA GL_ONE)
                            (on_gl (glEnable GL_BLEND)
                              (if rd_ComponentCount (m_pDataset r2) = 1
                               then Enable m_pProgramIsoNoCompose r2
                               else Enable m_pProgramColorNoCompose r2))
                     else on_gl (glEnable GL_DEPTH_TEST) r2)
                | RM_INVALID \<Rightarrow> T_ERROR ''Invalid rendermode set'' r2)
      in on_geogen (\<lambda>g. g\<lparr>geo_LODData :=
                      UINTVECTOR3 (rd_DomainSize (m_pDataset r3) (m_iCurrentLOD r3))\<rparr>) r3)"

text \<open>\<open>GLRenderer::RenderHQMIPPreLoop\<close> of the parent class is not part of the sources
  at hand: it is the parameter \<open>parent\<close>, any function on the renderer state.\<close>

definition RenderHQMIPPreLoop :: "('region \<Rightarrow> GLSBVR2D \<Rightarrow> GLSBVR2D) \<Rightarrow> 'region \<Rightarrow> GLSBVR2D \<Rightarrow> GLSBVR2D" where
  "RenderHQMIPPreLoop parent region r =
     on_gl (glDisable GL_DEPTH_TEST)
       (on_gl (glEnable GL_BLEND)
         (on_gl (glBlendEquation GL_MAX)
           (on_gl (glBlendFunc GL_ONE GL_ONE)
             (Enable m_pProgramHQMIPRot (parent region r)))))"

section \<open>Sample values\<close>

text \<open>The commands \<open>createFrom\<close> knows.\<close>

primrec known_command :: "NetDSCommandCode \<Rightarrow> bool" where
  "known_command nds_OPEN = True"
| "known_command nds_CLOSE = True"
| "known_command nds_BRICK = True"
| "known_command nds_LIST_FILES = True"
| "known_command nds_SHUTDOWN = True"
| "known_command nds_ROTATION = True"
| "known_command nds_BATCHSIZE = True"
| "known_command (nds_OTHER k) = False"

text \<open>The 4 x 4 identity matrix, as IEEE-754 bit patterns.\<close>

definition identity_matrix :: "f32 list" where
  "identity_matrix =
     [0x3F800000, 0, 0, 0, 0, 0x3F800000, 0, 0, 0, 0, 0x3F800000, 0, 0, 0, 0, 0x3F800000]"




text \<open>A renderer in 1-D transfer-function mode without lighting, on a dataset of two
  LOD levels, with blending off and no uniform set; and a brick of 4 x 4 x 4 voxels.\<close>

definition demo_renderer :: GLSBVR2D where
  "demo_renderer =
     \<lparr>m_eRenderMode = RM_1DTRANS,
      m_bUseLighting = False,
      m_bAvoidSeperateCompositing = False,
      m_fSampleRateModifier = 1,
      m_bDecreaseSamplingRateNow = False,
      m_fSampleDecFactor = 2,
      m_iCurrentLOD = 1,
      m_bClipPlaneOn = False,
      m_ClipPlane = (0, 0, 1, 0),
      m_pDataset = \<lparr>rd_ComponentCount = 1,
                     rd_DomainSize = (\<lambda>l. if l = 0 then VECTOR3 8 8 8 else VECTOR3 4 4 4)\<rparr>,
      m_SBVRGeogen = \<lparr>geo_SamplingModifier = 1, geo_ClipPlaneEnabled = False,
                       geo_ClipPlane = (0, 0, 1, 0), geo_LODData = VECTOR3 8 8 8\<rparr>,
      gl = \<lparr>gl_enabled = (\<lambda>c. c = GL_DEPTH_TEST), gl_blend_sfactor = GL_ONE,
             gl_blend_dfactor = GL_ZERO, gl_blend_equation = GL_FUNC_ADD,
             gl_depth_mask = True\<rparr>,
      program_enabled = (\<lambda>p. False),
      uniforms = (\<lambda>k. None),
      texture_units = (\<lambda>n. None),
      error_log = []\<rparr>"


section \<open>Properties of the dataset\<close>

lemma GetEffectiveBrickSize_known:
  assumes "map_of (bricks e) bk = Some md"
  shows "GetEffectiveBrickSize e bk =
           Inr (VECTOR3 (ucast (vec_x (n_voxels md) - 1))
                        (ucast (vec_y (n_voxels md) - 1))
                        (ucast (vec_z (n_voxels md) - 1)))"
  using assms by (simp add: GetEffectiveBrickSize_def GetBrickMetadata_def Let_def)

text \<open>C3: the effective brick size is the voxel count minus the overlap of each face,
  1 on an internal face and 0 on a face on the domain boundary. On the dataset of one
  brick every face is on the domain boundary, so the claim asks for 4 x 4 x 4 voxels;
  the code subtracts 1 on every axis and returns 3 x 3 x 3.\<close>

theorem GetEffectiveBrickSize_boundary_brick:
  "GetEffectiveBrickSize single_brick_ds (0, 0, 0) = Inr (VECTOR3 3 3 3)
   \<and> GetEffectiveBrickSize single_brick_ds (0, 0, 0) \<noteq> Inr (VECTOR3 4 4 4)
   \<and> GetDomainSize single_brick_ds = VECTOR3 4 4 4"
  by (simp add: GetEffectiveBrickSize_def GetBrickMetadata_def single_brick_ds_def
      GetDomainSize_def)

text \<open>C7: \<open>GetComponentCount\<close> returns 1 in every dataset state, with a warning.\<close>

theorem GetComponentCount_is_one:
  "snd (GetComponentCount e) = 1
   \<and> fst (GetComponentCount e) = [''Assuming single-component data.'']"
  by (simp add: GetComponentCount_def)

text \<open>C9: \<open>GetLODLevelCount\<close> returns 1 in every dataset state, whatever bricks and
  LOD levels the brick table holds.\<close>

theorem GetLODLevelCount_is_one:
  "GetLODLevelCount e = 1"
  by (simp add: GetLODLevelCount_def)

text \<open>C8: after \<open>SetHistogram h\<close> the histogram is \<open>h\<close>, and reading it changes
  nothing, so it stays \<open>h\<close> until the next write; each of \<open>AddBrick\<close>, \<open>UpdateData\<close>,
  \<open>Clear\<close> and \<open>SetRange\<close> leaves no cached histogram, so that the next request
  recomputes it, unless a histogram is supplied after the write.\<close>

theorem histogram_after_set:
  "fst (histogram calc (SetHistogram h e)) = h
   \<and> snd (histogram calc (SetHistogram h e)) = SetHistogram h e
   \<and> m_pHist1D (AddBrick bk md payload e) = None
   \<and> (case UpdateData bk payload e of
         Inl err \<Rightarrow> err = BrickNotFound
       | Inr e' \<Rightarrow> m_pHist1D e' = None)
   \<and> m_pHist1D (Clear e) = None
   \<and> m_pHist1D (SetRange rg e) = None
   \<and> fst (histogram calc (AddBrick bk md payload (SetHistogram h e)))
       = calc ((bk, payload) # m_Data e)
   \<and> fst (histogram calc (SetHistogram h (AddBrick bk md payload e))) = h"
  by (simp add: histogram_def SetHistogram_def AddBrick_def UpdateData_def Clear_def
      SetRange_def Recalculate1DHistogram_def split: option.split)

text \<open>The histogram \<open>[7, 9]\<close> on the dataset of one brick, with a binning that
  counts the bricks.\<close>

theorem histogram_after_set_witness:
  "fst (histogram (\<lambda>d. [of_nat (length d)]) (SetHistogram [7, 9] single_brick_ds)) = [7, 9]
   \<and> fst (histogram (\<lambda>d. [of_nat (length d)])
        (SetHistogram [7, 9] (Clear single_brick_ds))) = [7, 9]
   \<and> fst (histogram (\<lambda>d. [of_nat (length d)])
        (Clear (SetHistogram [7, 9] single_brick_ds))) = [0]
   \<and> (case UpdateData (0, 0, 0) (DT_UBYTE (replicate 64 1))
              (SetHistogram [7, 9] single_brick_ds) of
         Inl err \<Rightarrow> False
       | Inr e' \<Rightarrow> m_pHist1D e' = None)"
  using histogram_after_set [of "\<lambda>d. [of_nat (length d)]" "[7, 9]" single_brick_ds
      "(0, 0, 0)" "\<lparr>center = VECTOR3 0 0 0, extents = VECTOR3 0 0 0, n_voxels = VECTOR3 4 4 4\<rparr>" "DT_UBYTE (replicate 64 1)" "(0, 0)"]
    histogram_after_set [of "\<lambda>d. [of_nat (length d)]" "[7, 9]" "Clear single_brick_ds"
      "(0, 0, 0)" "\<lparr>center = VECTOR3 0 0 0, extents = VECTOR3 0 0 0, n_voxels = VECTOR3 4 4 4\<rparr>" "DT_UBYTE (replicate 64 1)" "(0, 0)"]
  by (simp add: histogram_def SetHistogram_def UpdateData_def Clear_def single_brick_ds_def
      Recalculate1DHistogram_def)

section \<open>Properties of the wire helpers\<close>

lemma of_be32_wru32: "of_be32 (ucast (drop_bit 24 w)) (ucast (drop_bit 16 w)) (ucast (drop_bit 8 w)) (ucast w) = w"
  unfolding of_be32_def
proof (rule bit_word_eqI)
  fix n assume n: "n < LENGTH(32)"
  consider "n < 8" | "8 \<le> n" "n < 16" | "16 \<le> n" "n < 24" | "24 \<le> n" by linarith
  then show "bit (push_bit 24 (ucast (ucast (drop_bit 24 w) :: 8 word)) OR push_bit 16 (ucast (ucast (drop_bit 16 w) :: 8 word)) OR
            push_bit 8 (ucast (ucast (drop_bit 8 w):: 8 word)) OR ucast (ucast w :: 8 word) :: 32 word) n = bit w n"
    using n by cases (auto simp add: bit_simps)
qed

lemma ru32_wru32: "ru32 (wru32 w @ s) = (Some w, s)"
  by (simp add: wru32_def of_be32_wru32)

lemma ru16_wru16: "ru16 (wru16 w @ s) = (Some w, s)"
proof -
  have "push_bit 8 (ucast (ucast (drop_bit 8 w) :: 8 word)) OR ucast (ucast w :: 8 word) = w"
  proof (rule bit_word_eqI)
    fix n assume n: "n < LENGTH(16)"
    consider "n < 8" | "8 \<le> n" by linarith
    then show "bit (push_bit 8 (ucast (ucast (drop_bit 8 w) :: 8 word)) OR ucast (ucast w :: 8 word) :: 16 word) n = bit w n"
      using n by cases (auto simp add: bit_simps)
  qed
  then show ?thesis by (simp add: wru16_def)
qed

lemma readFromSocket_append: "length bs = n \<Longrightarrow> readFromSocket n (bs @ s) = (Some bs, s)"
  by (simp add: readFromSocket_def)

lemma ucast_ucast_size_t:
  fixes n :: size_t
  assumes "n < 2 ^ 32"
  shows "(ucast (ucast n :: u32) :: size_t) = n"
proof -
  have "(ucast (ucast n :: u32) :: size_t) = take_bit 32 n"
    by (rule bit_word_eqI) (auto simp add: bit_simps)
  also have "\<dots> = n"
    using assms by (simp add: take_bit_eq_mask less_mask_eq)
  finally show ?thesis .
qed

lemma rsizet_wrsizet: "n < 2 ^ 32 \<Longrightarrow> rsizet (wrsizet n @ s) = (Some n, s)"
  by (simp add: rsizet_def wrsizet_def ru32_wru32 ucast_ucast_size_t)

section \<open>Properties of the requests\<close>

subsection \<open>Writing a request and reading it back\<close>

text \<open>The command byte that \<open>writeToSocket\<close> writes first is read by the caller, which
  picks the class by it; the constructor reads the rest. Requests without a \<open>type\<close>
  member come back as they were written.\<close>

lemma roundtrip_OpenParams:
  assumes "socket \<noteq> -1" and "length f = unat l"
  shows "fst (OpenParams_ctor u socket
           (nt(socket := tl (writeToSocket cval (OpenParams nds_OPEN l f)))))
         = OpenParams nds_OPEN l f"
  using assms
  by (simp add: OpenParams_ctor_def wru8_def wr_def ru16_wru16 readFromSocket_def)

lemma roundtrip_CloseParams:
  assumes "socket \<noteq> -1" and "length f = unat l"
  shows "fst (CloseParams_ctor u socket
           (nt(socket := tl (writeToSocket cval (CloseParams nds_CLOSE l f)))))
         = CloseParams nds_CLOSE l f"
  using assms
  by (simp add: CloseParams_ctor_def wru8_def wr_def ru16_wru16 readFromSocket_def)

lemma roundtrip_BatchSizeParams:
  assumes "socket \<noteq> -1" and "n < 2 ^ 32"
  shows "fst (BatchSizeParams_ctor u socket
           (nt(socket := tl (writeToSocket cval (BatchSizeParams nds_BATCHSIZE n)))))
         = BatchSizeParams nds_BATCHSIZE n"
  using assms rsizet_wrsizet [of n "[]"]
  by (simp add: BatchSizeParams_ctor_def wru8_def)

lemma roundtrip_SimpleParams:
  "fst (initFromSocket u (ListFilesParams_ctor c) socket
          (nt(socket := tl (writeToSocket cval (ListFilesParams c))))) = ListFilesParams c"
  "fst (initFromSocket u (ShutdownParams_ctor c) socket
          (nt(socket := tl (writeToSocket cval (ShutdownParams c))))) = ShutdownParams c"
  by (simp_all add: ListFilesParams_ctor_def ShutdownParams_ctor_def)

text \<open>C1: every request that is written with \<open>writeToSocket\<close> and read with
  \<open>initFromSocket\<close> comes back field for field, the \<open>type\<close> of \<open>ROTATION\<close> and
  \<open>BRICK\<close> included. \<open>writeToSocket\<close> does not write \<open>type\<close>, \<open>initFromSocket\<close> reads
  it: the \<open>BRICK\<close> request (type 1, lod 2, bidx 3) comes back with the first byte of
  \<open>lod\<close> as its type, \<open>lod\<close> shifted by one byte and \<open>bidx\<close> never read; the
  \<open>ROTATION\<close> request with type 1 comes back with a type that was never read.\<close>

theorem writeToSocket_omits_type:
  "fst (BrickParams_ctor u 3 (nt(3 := tl (writeToSocket cval (BrickParams nds_BRICK 1 2 3)))))
     = BrickParams nds_BRICK 0 512 (un_bidx u)
   \<and> fst (RotateParams_ctor u 3
          (nt(3 := tl (writeToSocket cval (RotateParams nds_ROTATION identity_matrix 16 1)))))
     = RotateParams nds_ROTATION identity_matrix 16 (un_type u)"
  by (simp add: BrickParams_ctor_def RotateParams_ctor_def identity_matrix_def wru8_def
      wru32_def of_be32_def wrf32v_def wrf32v_d_def wrsizet_def rf32v_def rsizet_def
      readFromSocket_def)

subsection \<open>The broadcast\<close>

text \<open>On a rank other than the source, \<open>mpi_sync\<close> makes the request equal to the one
  of the source for every class whose members are all broadcast.\<close>

lemma mpi_sync_OpenParams:
  assumes "rank \<noteq> srcRank" and "length f = unat l"
  shows "mpi_sync u rank srcRank (OpenParams c l f) (OpenParams c l0 f0) = OpenParams c l f"
  using assms by (simp add: MPI_Bcast_def MPI_Bcast_buf_def new_char_def)

lemma mpi_sync_CloseParams:
  assumes "rank \<noteq> srcRank" and "length f = unat l"
  shows "mpi_sync u rank srcRank (CloseParams c l f) (CloseParams c l0 f0) = CloseParams c l f"
  using assms by (simp add: MPI_Bcast_def MPI_Bcast_buf_def new_char_def)

lemma mpi_sync_BatchSizeParams:
  assumes "rank \<noteq> srcRank" and "n < 2 ^ 32"
  shows "mpi_sync u rank srcRank (BatchSizeParams c n) (BatchSizeParams c n0)
           = BatchSizeParams c n"
  using assms by (simp add: MPI_Bcast_def ucast_ucast_size_t)

lemma mpi_sync_BrickParams:
  assumes "rank \<noteq> srcRank"
  shows "mpi_sync u rank srcRank (BrickParams c t l b) (BrickParams c t0 l0 b0)
           = BrickParams c t l b"
  using assms by (simp add: MPI_Bcast_def)

text \<open>C2: after \<open>mpi_sync\<close> every worker rank holds a request equal field for field
  to the one of rank 0, for \<open>ROTATION\<close> the type as well as the matrix.
  \<open>RotateParams::mpi_sync\<close> broadcasts the 16 floats of the matrix alone: the worker
  keeps the \<open>type\<close> (and \<open>matSize\<close>) it had. A worker whose object was constructed
  without a socket, with 0 where the type is stored, holds type 0 after the broadcast of a
  request of type 1.\<close>

theorem RotateParams_mpi_sync_omits_type:
  "mpi_sync u 1 0 (RotateParams nds_ROTATION m ms t) (RotateParams nds_ROTATION m0 ms0 t0)
     = RotateParams nds_ROTATION (take 16 m @ drop 16 m0) ms0 t0
   \<and> mpi_sync u 1 0 (RotateParams nds_ROTATION identity_matrix 16 1)
        (fst (RotateParams_ctor
               (u\<lparr>un_matrix := replicate 16 0, un_matSize := 16, un_type := 0\<rparr>) (-1) nt))
      = RotateParams nds_ROTATION identity_matrix 16 0"
  by (simp add: MPI_Bcast_buf_def RotateParams_ctor_def identity_matrix_def)

subsection \<open>The factory\<close>

lemma initFromSocket_code: "code (fst (initFromSocket u p socket nt)) = code p"
  by (cases p) (simp_all add: split_def Let_def)

text \<open>C10: \<open>createFrom\<close> returns an object whose \<open>code\<close> is \<open>cmd\<close> for each of the
  seven known commands and \<open>NULL\<close> for every other value of \<open>cmd\<close>.\<close>

theorem createFrom_code:
  "map_option code (fst (createFrom cval u cmd socket nt))
     = (if known_command cmd then Some cmd else None)"
  by (cases cmd)
     (simp_all add: OpenParams_ctor_def CloseParams_ctor_def BrickParams_ctor_def
        RotateParams_ctor_def BatchSizeParams_ctor_def ListFilesParams_ctor_def
        ShutdownParams_ctor_def split_def Let_def)

subsection \<open>The response to OPEN\<close>











lemma OpenParams_perform_worker:
  "rank \<noteq> 0 \<Longrightarrow> snd (OpenParams_perform wru32v openFile st rank this object) = []"
  by (simp add: OpenParams_perform_def Let_def)



section \<open>Properties of the renderer\<close>

lemma gl_simps:
  "gl (on_gl f r) = f (gl r)"
  "gl (on_geogen h r) = gl r"
  "gl (Enable p r) = gl r"
  "gl (Bind t n r) = gl r"
  by (simp_all add: on_gl_def on_geogen_def Enable_def Bind_def)

text \<open>C5: before the brick loop, the 1-D and 2-D transfer-function modes enable blending
  with the factors (one minus destination alpha, one); the high-quality MIP mode sets
  the blend equation to MAX and disables the depth test.\<close>

theorem blend_state_before_loop:
  "(m_eRenderMode r = RM_1DTRANS \<or> m_eRenderMode r = RM_2DTRANS \<longrightarrow>
      gl_enabled (gl (Render3DPreLoop r)) GL_BLEND
      \<and> gl_blend_sfactor (gl (Render3DPreLoop r)) = GL_ONE_MINUS_DST_ALPHA
      \<and> gl_blend_dfactor (gl (Render3DPreLoop r)) = GL_ONE)
   \<and> gl_blend_equation (gl (RenderHQMIPPreLoop parent region r)) = GL_MAX
   \<and> \<not> gl_enabled (gl (RenderHQMIPPreLoop parent region r)) GL_DEPTH_TEST"
proof (intro conjI impI)
  assume mode: "m_eRenderMode r = RM_1DTRANS \<or> m_eRenderMode r = RM_2DTRANS"
  have mode': "m_eRenderMode (on_geogen h r') = m_eRenderMode r'" for h r'
    by (simp add: on_geogen_def)
  from mode show "gl_enabled (gl (Render3DPreLoop r)) GL_BLEND"
    by (auto simp add: Render3DPreLoop_def Let_def gl_simps mode' glBlendFunc_def glEnable_def)
  from mode show "gl_blend_sfactor (gl (Render3DPreLoop r)) = GL_ONE_MINUS_DST_ALPHA"
    by (auto simp add: Render3DPreLoop_def Let_def gl_simps mode' glBlendFunc_def glEnable_def)
  from mode show "gl_blend_dfactor (gl (Render3DPreLoop r)) = GL_ONE"
    by (auto simp add: Render3DPreLoop_def Let_def gl_simps mode' glBlendFunc_def glEnable_def)
next
  show "gl_blend_equation (gl (RenderHQMIPPreLoop parent region r)) = GL_MAX"
    by (simp add: RenderHQMIPPreLoop_def gl_simps glDisable_def glEnable_def
        glBlendEquation_def)
  show "\<not> gl_enabled (gl (RenderHQMIPPreLoop parent region r)) GL_DEPTH_TEST"
    by (simp add: RenderHQMIPPreLoop_def gl_simps glDisable_def)
qed

text \<open>The renderer in 1-D mode, blending off before the call; the parent class's part
  of the MIP set-up taken to do nothing.\<close>

theorem blend_state_before_loop_witness:
  "m_eRenderMode demo_renderer = RM_1DTRANS
   \<and> \<not> gl_enabled (gl demo_renderer) GL_BLEND
   \<and> gl_enabled (gl (Render3DPreLoop demo_renderer)) GL_BLEND
   \<and> gl_blend_sfactor (gl (Render3DPreLoop demo_renderer)) = GL_ONE_MINUS_DST_ALPHA
   \<and> gl_blend_dfactor (gl (Render3DPreLoop demo_renderer)) = GL_ONE
   \<and> gl_blend_equation (gl (RenderHQMIPPreLoop (\<lambda>region r. r) () demo_renderer)) = GL_MAX
   \<and> \<not> gl_enabled (gl (RenderHQMIPPreLoop (\<lambda>region r. r) () demo_renderer)) GL_DEPTH_TEST"
  using blend_state_before_loop [of demo_renderer "\<lambda>region r. r" "()"]
  by (simp add: demo_renderer_def)




end
